theory Spec2Isabelle
  imports Complex_Main
begin

section \<open>The timeline visual: data mapper and renderer\<close>

text \<open>
  A shallow embedding of \<^verbatim>\<open>src/visual.ts\<close>. JavaScript strings are lists of code
  units (\<^typ>\<open>string\<close>), so \<^verbatim>\<open>s.length\<close> is \<^term>\<open>length s\<close> and
  \<^verbatim>\<open>s.substring(0, n)\<close> is \<^term>\<open>take n s\<close>.
\<close>

subsection \<open>Display helpers\<close>

text \<open>
  \<^verbatim>\<open>function formatStringDisplay(input)\<close>: inputs of at most ten code units are
  returned as they are, longer ones are cut to \<^verbatim>\<open>input.substring(0, 7) + '...'\<close>.
\<close>

definition formatStringDisplay :: "string \<Rightarrow> string" where
  "formatStringDisplay input =
     (if length input \<le> 10 then input else take 7 input @ ''...'')"


text \<open>
  \<^verbatim>\<open>new Date(s)\<close> is the host's built-in date parser; what it makes of a string
  depends on the engine and on the local time zone. A Date value is modelled by what its
  accessors return: the time value in milliseconds (\<^verbatim>\<open>+date\<close>) and the local
  calendar fields read by \<^verbatim>\<open>getFullYear()\<close>, \<^verbatim>\<open>getMonth()\<close> (0 to 11) and
  \<^verbatim>\<open>getDate()\<close> (1 to 31). On an invalid Date every accessor returns NaN, modelled
  as \<^term>\<open>None\<close>. The constructor itself is a parameter \<open>newDate\<close> of every function
  that calls it.
\<close>

datatype JSDate =
  InvalidDate
  | ValidDate (timeValue: int) (fullYear: int) (monthIndex: nat) (dayOfMonth: nat)

fun getTime :: "JSDate \<Rightarrow> int option" where
  "getTime InvalidDate = None"
| "getTime (ValidDate t y m d) = Some t"

fun getDate :: "JSDate \<Rightarrow> int option" where
  "getDate InvalidDate = None"
| "getDate (ValidDate t y m d) = Some (int d)"

fun getMonth :: "JSDate \<Rightarrow> int option" where
  "getMonth InvalidDate = None"
| "getMonth (ValidDate t y m d) = Some (int m)"

fun getFullYear :: "JSDate \<Rightarrow> int option" where
  "getFullYear InvalidDate = None"
| "getFullYear (ValidDate t y m d) = Some y"

text \<open>
  The Date constructor of a host, after the ECMAScript standard. A string in the date-only
  form \<^verbatim>\<open>YYYY-MM-DD\<close> with a legal month and day is read as midnight UTC of that day;
  what any other string gives is left to the host (\<open>fallback\<close>, \<^term>\<open>None\<close> for NaN).
  The getters read the calendar fields of the local time \<open>t + LocalTZA(t)\<close>, where the
  offset of the local time zone is the host's (\<open>localTZA\<close>, in milliseconds); the days
  since 1 January 1970 are turned into year, month and day of the proleptic Gregorian
  calendar, and back, by the usual era arithmetic.
\<close>

definition msPerDay :: int where
  "msPerDay = 86400000"

definition civilFromDays :: "int \<Rightarrow> int \<times> nat \<times> nat" where
  "civilFromDays days =
     (let z = days + 719468;
          era = z div 146097;
          doe = z mod 146097;
          yoe = (doe - doe div 1460 + doe div 36524 - doe div 146096) div 365;
          doy = doe - (365 * yoe + yoe div 4 - yoe div 100);
          mp = (5 * doy + 2) div 153;
          d = doy - (153 * mp + 2) div 5 + 1;
          m = (if mp < 10 then mp + 3 else mp - 9);
          y = yoe + era * 400 + (if m \<le> 2 then 1 else 0)
      in (y, nat (m - 1), nat d))"

definition daysFromCivil :: "int \<Rightarrow> int \<Rightarrow> int \<Rightarrow> int" where
  "daysFromCivil y m d =
     (let y' = (if m \<le> 2 then y - 1 else y);
          era = y' div 400;
          yoe = y' mod 400;
          doy = (153 * (if m > 2 then m - 3 else m + 9) + 2) div 5 + d - 1;
          doe = yoe * 365 + yoe div 4 - yoe div 100 + doy
      in era * 146097 + doe - 719468)"

definition dateOfTime :: "(int \<Rightarrow> int) \<Rightarrow> int \<Rightarrow> JSDate" where
  "dateOfTime localTZA t =
     (case civilFromDays ((t + localTZA t) div msPerDay) of
        (y, m, d) \<Rightarrow> ValidDate t y m d)"

definition digitValue :: "char \<Rightarrow> nat" where
  "digitValue c = length (takeWhile (\<lambda>x. x \<noteq> c) ''0123456789'')"

definition isDigit :: "char \<Rightarrow> bool" where
  "isDigit c \<longleftrightarrow> c \<in> set ''0123456789''"

definition digitsValue :: "string \<Rightarrow> nat" where
  "digitsValue s = foldl (\<lambda>n c. 10 * n + digitValue c) 0 s"

definition daysInMonth :: "nat \<Rightarrow> nat \<Rightarrow> nat" where
  "daysInMonth y m =
     (if m = 2 then (if y mod 4 = 0 \<and> (y mod 100 \<noteq> 0 \<or> y mod 400 = 0) then 29 else 28)
      else if m = 4 \<or> m = 6 \<or> m = 9 \<or> m = 11 then 30 else 31)"

definition parseDateOnly :: "string \<Rightarrow> int option" where
  "parseDateOnly s =
     (if length s = 10 \<and> s ! 4 = CHR ''-'' \<and> s ! 7 = CHR ''-'' \<and>
         list_all isDigit (take 4 s @ take 2 (drop 5 s) @ drop 8 s)
      then
        (let y = digitsValue (take 4 s);
             m = digitsValue (take 2 (drop 5 s));
             d = digitsValue (drop 8 s)
         in if 1 \<le> m \<and> m \<le> 12 \<and> 1 \<le> d \<and> d \<le> daysInMonth y m
            then Some (msPerDay * daysFromCivil (int y) (int m) (int d))
            else None)
      else None)"

definition hostDate :: "(int \<Rightarrow> int) \<Rightarrow> (string \<Rightarrow> int option) \<Rightarrow> string \<Rightarrow> JSDate" where
  "hostDate localTZA fallback s =
     (case (case parseDateOnly s of Some t \<Rightarrow> Some t | None \<Rightarrow> fallback s) of
        None \<Rightarrow> InvalidDate
      | Some t \<Rightarrow> dateOfTime localTZA t)"

text \<open>
  \<^verbatim>\<open>String(x)\<close> on an integral number or NaN, and \<^verbatim>\<open>s.padStart(n, c)\<close>, which
  leaves a string of \<open>n\<close> or more code units alone.
\<close>

definition digitChar :: "nat \<Rightarrow> char" where
  "digitChar d = ''0123456789'' ! d"

fun natToString :: "nat \<Rightarrow> string" where
  "natToString n =
     (if n < 10 then [digitChar n] else natToString (n div 10) @ [digitChar (n mod 10)])"

declare natToString.simps [simp del]

definition numberToString :: "int option \<Rightarrow> string" where
  "numberToString x =
     (case x of
        None \<Rightarrow> ''NaN''
      | Some i \<Rightarrow> if i < 0 then CHR ''-'' # natToString (nat (- i)) else natToString (nat i))"

definition padStart :: "nat \<Rightarrow> char \<Rightarrow> string \<Rightarrow> string" where
  "padStart n c s = replicate (n - length s) c @ s"

text \<open>
  \<^verbatim>\<open>function formatDate(isoDate)\<close>: day and month are padded to two characters, the
  year is inserted as it is.
\<close>

definition formatDate :: "(string \<Rightarrow> JSDate) \<Rightarrow> string \<Rightarrow> string" where
  "formatDate newDate isoDate =
     (let date0 = newDate isoDate;
          day = padStart 2 CHR ''0'' (numberToString (getDate date0));
          month = padStart 2 CHR ''0''
                    (numberToString (map_option (\<lambda>m. m + 1) (getMonth date0)));
          year = getFullYear date0
      in day @ ''/'' @ month @ ''/'' @ numberToString year)"

text \<open>The display format of the specification: \<^verbatim>\<open>DD/MM/YYYY\<close>, written out digit by digit.\<close>

definition twoDigits :: "nat \<Rightarrow> string" where
  "twoDigits n = [digitChar (n div 10), digitChar (n mod 10)]"

definition fourDigits :: "nat \<Rightarrow> string" where
  "fourDigits n =
     [digitChar (n div 1000), digitChar (n div 100 mod 10), digitChar (n div 10 mod 10),
      digitChar (n mod 10)]"

definition DDMMYYYY :: "nat \<Rightarrow> nat \<Rightarrow> nat \<Rightarrow> string" where
  "DDMMYYYY d m y = twoDigits d @ ''/'' @ twoDigits m @ ''/'' @ fourDigits y"

subsection \<open>Records and encoding scales\<close>

text \<open>
  \<^verbatim>\<open>interface Data\<close>. The fields \<open>color\<close> and \<open>symbol\<close> hold what the ordinal scales
  return, which may be \<^verbatim>\<open>undefined\<close> (\<^term>\<open>None\<close>).
\<close>

datatype error = TypeError

record Data =
  date :: string
  dateDisplay :: string
  event :: string
  eventDisplay :: string
  description :: string
  colorAttribute :: string
  color :: "string option"
  symbolAttribute :: string
  symbol :: "string option"

text \<open>
  \<^verbatim>\<open>d3.ScaleOrdinal<string, string>\<close>: the ordinal scale of the d3 library, an
  external dependency, modelled by its documented behaviour. A scale keeps the labels it
  has seen in order of encounter (its domain) and a range of visual values; called on a
  label it looks the label's index up, appends an unseen label to the domain, and returns
  \<^verbatim>\<open>range[i % range.length]\<close>. The visual's constructor calls
  \<^verbatim>\<open>d3.scaleOrdinal()\<close> with no argument and nothing ever sets a range, so both
  lists start empty; on an empty range the index \<^verbatim>\<open>i % 0\<close> is NaN and the result
  is \<^verbatim>\<open>undefined\<close>.
\<close>

record ScaleOrdinal =
  scale_domain :: "string list"
  scale_range :: "string list"

definition scaleOrdinal :: ScaleOrdinal where
  "scaleOrdinal = \<lparr>scale_domain = [], scale_range = []\<rparr>"

fun indexOf :: "string list \<Rightarrow> string \<Rightarrow> nat option" where
  "indexOf [] d = None"
| "indexOf (x # xs) d = (if x = d then Some 0 else map_option Suc (indexOf xs d))"

definition rangeAt :: "ScaleOrdinal \<Rightarrow> nat \<Rightarrow> string option" where
  "rangeAt s i =
     (if scale_range s = [] then None
      else Some (scale_range s ! (i mod length (scale_range s))))"

definition callScale :: "ScaleOrdinal \<Rightarrow> string \<Rightarrow> string option \<times> ScaleOrdinal" where
  "callScale s d =
     (case indexOf (scale_domain s) d of
        Some i \<Rightarrow> (rangeAt s i, s)
      | None \<Rightarrow>
          (rangeAt s (length (scale_domain s)), s\<lparr>scale_domain := scale_domain s @ [d]\<rparr>))"

text \<open>A session: the labels passed to one scale, in order, and the values returned.\<close>

fun callScales :: "ScaleOrdinal \<Rightarrow> string list \<Rightarrow> string option list \<times> ScaleOrdinal" where
  "callScales s [] = ([], s)"
| "callScales s (d # ds) =
     (case callScale s d of
        (v, s') \<Rightarrow> (case callScales s' ds of (vs, s'') \<Rightarrow> (v # vs, s'')))"

subsection \<open>The data mapper\<close>

text \<open>
  The host's table: each column carries role flags (an absent flag is falsy), each row is
  a list of cells. A cell is represented by the string its \<^verbatim>\<open>toString()\<close> returns,
  a blank cell (\<^verbatim>\<open>null\<close> or \<^verbatim>\<open>undefined\<close>) by \<^term>\<open>None\<close>.
\<close>

record Column =
  role_Date :: bool
  role_Event :: bool
  role_Description :: bool
  role_Color :: bool
  role_Symbol :: bool

record DataViewTable =
  columns :: "Column list"
  rows :: "string option list list"

text \<open>\<^verbatim>\<open>idColumns\<close>: \<^term>\<open>None\<close> is the initial \<^verbatim>\<open>null\<close>.\<close>

record IdColumns =
  idDate :: "nat option"
  idEvent :: "nat option"
  idDescription :: "nat option"
  idColor :: "nat option"
  idSymbol :: "nat option"

definition noColumns :: IdColumns where
  "noColumns = \<lparr>idDate = None, idEvent = None, idDescription = None, idColor = None,
     idSymbol = None\<rparr>"

text \<open>The callback of \<^verbatim>\<open>table.columns.forEach((column, i) => ...)\<close>.\<close>

definition scanColumn :: "IdColumns \<Rightarrow> nat \<times> Column \<Rightarrow> IdColumns" where
  "scanColumn ids ic =
     (let i = fst ic; role = snd ic;
          ids1 = (if role_Date role then ids\<lparr>idDate := Some i\<rparr> else ids);
          ids2 = (if role_Event role then ids1\<lparr>idEvent := Some i\<rparr> else ids1);
          ids3 = (if role_Description role then ids2\<lparr>idDescription := Some i\<rparr> else ids2);
          ids4 = (if role_Color role then ids3\<lparr>idColor := Some i\<rparr> else ids3);
          ids5 = (if role_Symbol role then ids4\<lparr>idSymbol := Some i\<rparr> else ids4)
      in ids5)"

definition resolveColumns :: "Column list \<Rightarrow> IdColumns" where
  "resolveColumns cols = foldl scanColumn noColumns (enumerate 0 cols)"

text \<open>
  \<^verbatim>\<open>row[idx].toString()\<close>. With \<^verbatim>\<open>idx\<close> still \<^verbatim>\<open>null\<close> the property
  \<^verbatim>\<open>row["null"]\<close> is \<^verbatim>\<open>undefined\<close>, as is an index past the end of the row; a
  blank cell is \<^verbatim>\<open>null\<close>. Calling a method on \<^verbatim>\<open>undefined\<close> or \<^verbatim>\<open>null\<close>
  throws a TypeError.
\<close>

definition cellToString :: "string option list \<Rightarrow> nat option \<Rightarrow> error + string" where
  "cellToString row idx =
     (case idx of
        None \<Rightarrow> Inl TypeError
      | Some i \<Rightarrow>
          if i < length row
          then (case row ! i of None \<Rightarrow> Inl TypeError | Some cell \<Rightarrow> Inr cell)
          else Inl TypeError)"

text \<open>
  The results below carry the two scales along, since a call of a scale may extend its
  domain and the extension survives an exception thrown later.
\<close>

type_synonym 'a scaled = "(error + 'a) \<times> ScaleOrdinal \<times> ScaleOrdinal"

text \<open>The callback of \<^verbatim>\<open>rows.forEach(row => ...)\<close>, statement by statement.\<close>

definition transformRow ::
  "(string \<Rightarrow> JSDate) \<Rightarrow> IdColumns \<Rightarrow> ScaleOrdinal \<Rightarrow> ScaleOrdinal \<Rightarrow>
   string option list \<Rightarrow> Data scaled"
where
  "transformRow newDate ids cs ss row =
     (case cellToString row (idDate ids) of Inl e \<Rightarrow> (Inl e, cs, ss) | Inr date0 \<Rightarrow>
      let dateDisplay0 = formatDate newDate date0 in
      case cellToString row (idEvent ids) of Inl e \<Rightarrow> (Inl e, cs, ss) | Inr event0 \<Rightarrow>
      let eventDisplay0 = formatStringDisplay event0 in
      case cellToString row (idDescription ids) of Inl e \<Rightarrow> (Inl e, cs, ss)
      | Inr description0 \<Rightarrow>
      case cellToString row (idColor ids) of Inl e \<Rightarrow> (Inl e, cs, ss)
      | Inr colorAttribute0 \<Rightarrow>
      case cellToString row (idSymbol ids) of Inl e \<Rightarrow> (Inl e, cs, ss)
      | Inr symbolAttribute0 \<Rightarrow>
      case (if idColor ids \<noteq> None
            then (case cellToString row (idColor ids) of
                    Inl e \<Rightarrow> Inl e
                  | Inr label \<Rightarrow> Inr (callScale cs label))
            else Inr (Some ''#000000'', cs)) of
        Inl e \<Rightarrow> (Inl e, cs, ss)
      | Inr (color0, cs') \<Rightarrow>
      case (if idSymbol ids \<noteq> None
            then (case cellToString row (idSymbol ids) of
                    Inl e \<Rightarrow> Inl e
                  | Inr label \<Rightarrow> Inr (callScale ss label))
            else Inr (Some ''circle'', ss)) of
        Inl e \<Rightarrow> (Inl e, cs', ss)
      | Inr (symbol0, ss') \<Rightarrow>
      (Inr \<lparr>date = (if idDate ids \<noteq> None then date0 else []),
            dateDisplay = dateDisplay0,
            event = (if idEvent ids \<noteq> None then event0 else []),
            eventDisplay = (if idEvent ids \<noteq> None then eventDisplay0 else []),
            description = description0,
            colorAttribute = colorAttribute0,
            color = color0,
            symbolAttribute = symbolAttribute0,
            symbol = symbol0\<rparr>, cs', ss'))"

text \<open>The loop over the rows: each item is pushed onto \<^verbatim>\<open>data\<close>; an exception ends it.\<close>

fun transformRows ::
  "(string \<Rightarrow> JSDate) \<Rightarrow> IdColumns \<Rightarrow> ScaleOrdinal \<Rightarrow> ScaleOrdinal \<Rightarrow> Data list \<Rightarrow>
   string option list list \<Rightarrow> (Data list) scaled"
where
  "transformRows newDate ids cs ss acc [] = (Inr acc, cs, ss)"
| "transformRows newDate ids cs ss acc (row # rest) =
     (case transformRow newDate ids cs ss row of
        (Inl e, cs', ss') \<Rightarrow> (Inl e, cs', ss')
      | (Inr item, cs', ss') \<Rightarrow> transformRows newDate ids cs' ss' (acc @ [item]) rest)"

text \<open>\<^verbatim>\<open>Visual.transformData(table)\<close>, with the two scales of \<^verbatim>\<open>this\<close> made explicit.\<close>

definition transformData ::
  "(string \<Rightarrow> JSDate) \<Rightarrow> ScaleOrdinal \<Rightarrow> ScaleOrdinal \<Rightarrow> DataViewTable \<Rightarrow>
   (Data list) scaled"
where
  "transformData newDate cs ss table0 =
     transformRows newDate (resolveColumns (columns table0)) cs ss [] (rows table0)"

subsection \<open>The timeline renderer\<close>

text \<open>
  JavaScript numbers are idealised as real numbers, NaN and \<^verbatim>\<open>undefined\<close> as
  \<^term>\<open>None\<close>. \<^verbatim>\<open>d3.min(values, accessor)\<close> and \<^verbatim>\<open>d3.max\<close> skip values that do
  not compare with themselves (an invalid Date) and return \<^verbatim>\<open>undefined\<close> when nothing
  is left; the comparison is strict, so the first of equal values is kept.
\<close>

definition minStep :: "JSDate option \<Rightarrow> JSDate \<Rightarrow> JSDate option" where
  "minStep m v =
     (case getTime v of
        None \<Rightarrow> m
      | Some t \<Rightarrow>
          (case m of
             None \<Rightarrow> Some v
           | Some mv \<Rightarrow>
               (case getTime mv of
                  None \<Rightarrow> m
                | Some mt \<Rightarrow> if mt > t then Some v else m)))"

definition maxStep :: "JSDate option \<Rightarrow> JSDate \<Rightarrow> JSDate option" where
  "maxStep m v =
     (case getTime v of
        None \<Rightarrow> m
      | Some t \<Rightarrow>
          (case m of
             None \<Rightarrow> Some v
           | Some mv \<Rightarrow>
               (case getTime mv of
                  None \<Rightarrow> m
                | Some mt \<Rightarrow> if mt < t then Some v else m)))"

definition d3_min :: "JSDate list \<Rightarrow> JSDate option" where
  "d3_min values = foldl minStep None values"

definition d3_max :: "JSDate list \<Rightarrow> JSDate option" where
  "d3_max values = foldl maxStep None values"

text \<open>The coercion of a domain bound to a number: \<^verbatim>\<open>undefined\<close> becomes NaN.\<close>

definition toNumber :: "JSDate option \<Rightarrow> real option" where
  "toNumber x = (case x of None \<Rightarrow> None | Some v \<Rightarrow> map_option real_of_int (getTime v))"

text \<open>
  \<^verbatim>\<open>d3.scaleTime().domain([d0, d1]).range([r0, r1])\<close>, from the d3 library: a
  continuous scale that maps the domain onto the range by linear interpolation, without
  clamping. A domain of width zero is mapped to the middle of the range; an input that is
  not a number gives \<^verbatim>\<open>undefined\<close>, a domain bound that is NaN gives NaN.
\<close>

definition normalize :: "real \<Rightarrow> real \<Rightarrow> real \<Rightarrow> real" where
  "normalize a b x = (if b - a \<noteq> 0 then (x - a) / (b - a) else 1 / 2)"

definition interpolateNumber :: "real \<Rightarrow> real \<Rightarrow> real \<Rightarrow> real" where
  "interpolateNumber a b t = a * (1 - t) + b * t"

definition scaleTime :: "real option \<times> real option \<Rightarrow> real \<times> real \<Rightarrow> JSDate \<Rightarrow> real option" where
  "scaleTime domain0 rng x =
     (case getTime x of
        None \<Rightarrow> None
      | Some t \<Rightarrow>
          (case domain0 of
             (Some d0, Some d1) \<Rightarrow>
               Some (if d1 < d0
                     then interpolateNumber (snd rng) (fst rng) (normalize d1 d0 (real_of_int t))
                     else interpolateNumber (fst rng) (snd rng) (normalize d0 d1 (real_of_int t)))
           | _ \<Rightarrow> None))"

text \<open>
  \<^verbatim>\<open>d3.group(data, d => d.date)\<close>: a map from each key to the list of its items, keys in
  order of first encounter, items in order of encounter.
\<close>

fun groupInsert :: "(string \<times> Data list) list \<Rightarrow> Data \<Rightarrow> (string \<times> Data list) list" where
  "groupInsert [] d = [(date d, [d])]"
| "groupInsert ((k, vs) # g) d =
     (if k = date d then (k, vs @ [d]) # g else (k, vs) # groupInsert g d)"

definition d3_group :: "Data list \<Rightarrow> (string \<times> Data list) list" where
  "d3_group values = foldl groupInsert [] values"

text \<open>
  The drawing: the \<^verbatim>\<open>svg\<close> element with its baseline, one circle per group, and the
  tooltip \<^verbatim>\<open>div\<close>. A marker keeps, with its circle, what its event handlers close over:
  the group's key and items. An attribute set through
  \<^verbatim>\<open>transition().duration(200)\<close> is modelled by the value the transition ends at, with
  the duration recorded in \<open>circle_transition\<close>.
\<close>

record Circle =
  circle_cx :: "real option"
  circle_cy :: real
  circle_r :: real
  circle_fill :: string
  circle_stroke :: string
  circle_stroke_width :: real

record Marker =
  circle :: Circle
  circle_transition :: "nat option"
  marker_date :: string
  marker_events :: "Data list"

record Line =
  line_x1 :: real
  line_x2 :: real
  line_y1 :: real
  line_y2 :: real
  line_stroke :: string
  line_stroke_width :: real

record Tooltip =
  visibility :: string
  html :: string
  tooltip_top :: "real option"
  tooltip_left :: "real option"

record Scene =
  svg_width :: real
  svg_height :: real
  baseline :: Line
  markers :: "Marker list"
  tooltip :: Tooltip

text \<open>The callback of \<^verbatim>\<open>groupedData.forEach((events, date) => ...)\<close>, lines 133 to 144.\<close>

definition drawMarker ::
  "(string \<Rightarrow> JSDate) \<Rightarrow> (JSDate \<Rightarrow> real option) \<Rightarrow> real \<Rightarrow> string \<times> Data list \<Rightarrow> Marker"
where
  "drawMarker newDate timeScale timelineY g =
     (let baseX = timeScale (newDate (fst g))
      in \<lparr>circle = \<lparr>circle_cx = baseX, circle_cy = timelineY, circle_r = 5,
                     circle_fill = ''#000'', circle_stroke = ''#000'',
                     circle_stroke_width = 2\<rparr>,
          circle_transition = None,
          marker_date = fst g,
          marker_events = snd g\<rparr>)"

text \<open>\<^verbatim>\<open>Visual.basicTimeline(svg, timeScale, timelineY)\<close>: the markers and the tooltip.\<close>

definition basicTimeline ::
  "(string \<Rightarrow> JSDate) \<Rightarrow> Data list \<Rightarrow> (JSDate \<Rightarrow> real option) \<Rightarrow> real \<Rightarrow> Marker list \<times> Tooltip"
where
  "basicTimeline newDate data0 timeScale timelineY =
     (let groupedData = d3_group data0;
          tooltip0 = \<lparr>visibility = ''hidden'', html = [], tooltip_top = None,
                       tooltip_left = None\<rparr>
      in (map (drawMarker newDate timeScale timelineY) groupedData, tooltip0))"

text \<open>
  Lines 80 to 113 of \<^verbatim>\<open>Visual.update\<close>: what is drawn, into the emptied target, from
  \<^verbatim>\<open>this.data\<close> and the viewport.
\<close>

definition drawTimeline :: "(string \<Rightarrow> JSDate) \<Rightarrow> Data list \<Rightarrow> real \<Rightarrow> real \<Rightarrow> Scene" where
  "drawTimeline newDate data0 width height =
     (let minDate = d3_min (map (\<lambda>d. newDate (date d)) data0);
          maxDate = d3_max (map (\<lambda>d. newDate (date d)) data0);
          timeScale = scaleTime (toNumber minDate, toNumber maxDate) (50, width - 50);
          timelineY = height / 2;
          line0 = \<lparr>line_x1 = 50, line_x2 = width - 50, line_y1 = timelineY,
                    line_y2 = timelineY, line_stroke = ''#000'', line_stroke_width = 2\<rparr>;
          drawn = basicTimeline newDate data0 timeScale timelineY
      in \<lparr>svg_width = width, svg_height = height, baseline = line0, markers = fst drawn,
          tooltip = snd drawn\<rparr>)"

text \<open>
  The visual's own state, and \<^verbatim>\<open>Visual.update(options)\<close>. An exception thrown by
  \<^verbatim>\<open>transformData\<close> leaves \<^verbatim>\<open>this.data\<close> and the target as they were; otherwise the
  target's content is replaced by the scene returned.
\<close>

record Visual =
  data :: "Data list"
  colorScale :: ScaleOrdinal
  symbolScale :: ScaleOrdinal

record VisualUpdateOptions =
  table :: DataViewTable
  viewport_width :: real
  viewport_height :: real

definition constructor :: Visual where
  "constructor = \<lparr>data = [], colorScale = scaleOrdinal, symbolScale = scaleOrdinal\<rparr>"

definition update ::
  "(string \<Rightarrow> JSDate) \<Rightarrow> Visual \<Rightarrow> VisualUpdateOptions \<Rightarrow> (error + Scene) \<times> Visual"
where
  "update newDate v options =
     (case transformData newDate (colorScale v) (symbolScale v) (table options) of
        (Inl e, cs, ss) \<Rightarrow> (Inl e, v\<lparr>colorScale := cs, symbolScale := ss\<rparr>)
      | (Inr d, cs, ss) \<Rightarrow>
          (Inr (drawTimeline newDate d (viewport_width options) (viewport_height options)),
           v\<lparr>data := d, colorScale := cs, symbolScale := ss\<rparr>))"

text \<open>
  The handlers of a circle, by the marker's position in the scene. \<^verbatim>\<open>Array.join\<close>
  puts the separator between the items.
\<close>

fun join :: "string \<Rightarrow> string list \<Rightarrow> string" where
  "join sep [] = []"
| "join sep [x] = x"
| "join sep (x # y # ys) = x @ sep @ join sep (y # ys)"

definition tooltipEntry :: "Data \<Rightarrow> string" where
  "tooltipEntry e =
     ''<b>Date:</b> '' @ dateDisplay e @ ''<br/><b>Event:</b> '' @ eventDisplay e @
     ''<br/><b>Description:</b> '' @ description e"

definition mouseover :: "nat \<Rightarrow> Scene \<Rightarrow> Scene" where
  "mouseover i scene =
     (if i < length (markers scene) then
        (let m = markers scene ! i;
             m' = m\<lparr>circle := (circle m)\<lparr>circle_r := 8, circle_stroke := ''red'',
                                          circle_stroke_width := 3\<rparr>,
                    circle_transition := Some 200\<rparr>
         in scene\<lparr>markers := (markers scene)[i := m'],
                  tooltip := (tooltip scene)\<lparr>html := join ''<br/><br/>''
                                                      (map tooltipEntry (marker_events m)),
                                             visibility := ''visible''\<rparr>\<rparr>)
      else scene)"

definition mousemove :: "nat \<Rightarrow> real \<Rightarrow> real \<Rightarrow> Scene \<Rightarrow> Scene" where
  "mousemove i pageX pageY scene =
     (if i < length (markers scene) then
        scene\<lparr>tooltip := (tooltip scene)\<lparr>tooltip_top := Some (pageY + 15),
                                         tooltip_left := Some (pageX + 15)\<rparr>\<rparr>
      else scene)"

definition mouseout :: "nat \<Rightarrow> Scene \<Rightarrow> Scene" where
  "mouseout i scene =
     (if i < length (markers scene) then
        (let m = markers scene ! i;
             m' = m\<lparr>circle := (circle m)\<lparr>circle_r := 5, circle_stroke := ''#000'',
                                          circle_stroke_width := 2\<rparr>,
                    circle_transition := Some 200\<rparr>
         in scene\<lparr>markers := (markers scene)[i := m'],
                  tooltip := (tooltip scene)\<lparr>visibility := ''hidden''\<rparr>\<rparr>)
      else scene)"

subsection \<open>Notions of the specification\<close>

text \<open>
  The time values of the Records whose date parses, and the linear map of a domain
  \<open>[d0, d1]\<close> onto a range \<open>[r0, r1]\<close>, which sends a domain of width zero to the middle
  of the range.
\<close>

definition validTimes :: "(string \<Rightarrow> JSDate) \<Rightarrow> Data list \<Rightarrow> int list" where
  "validTimes newDate data0 = List.map_filter (\<lambda>d. getTime (newDate (date d))) data0"

definition linearScale :: "real \<times> real \<Rightarrow> real \<times> real \<Rightarrow> real \<Rightarrow> real" where
  "linearScale domain0 rng t =
     (if fst domain0 = snd domain0 then (fst rng + snd rng) / 2
      else fst rng + (t - fst domain0) / (snd domain0 - fst domain0) * (snd rng - fst rng))"







subsection \<open>Sample inputs\<close>

text \<open>
  Four rows over three dates, a Date constructor that reads these dates as a host at UTC
  does and nothing else, the Records the data mapper makes of the rows, and the same table
  with other Color and Symbol cells.
\<close>

definition sampleDate :: "string \<Rightarrow> JSDate" where
  "sampleDate s =
     (if s = ''2024-01-01'' then ValidDate 1704067200000 2024 0 1
      else if s = ''2024-01-06'' then ValidDate 1704499200000 2024 0 6
      else if s = ''2024-01-11'' then ValidDate 1704931200000 2024 0 11
      else InvalidDate)"

definition sampleColumns :: "Column list" where
  "sampleColumns =
     [\<lparr>role_Date = True, role_Event = False, role_Description = False, role_Color = False,
        role_Symbol = False\<rparr>,
      \<lparr>role_Date = False, role_Event = True, role_Description = False, role_Color = False,
        role_Symbol = False\<rparr>,
      \<lparr>role_Date = False, role_Event = False, role_Description = True, role_Color = False,
        role_Symbol = False\<rparr>,
      \<lparr>role_Date = False, role_Event = False, role_Description = False, role_Color = True,
        role_Symbol = False\<rparr>,
      \<lparr>role_Date = False, role_Event = False, role_Description = False, role_Color = False,
        role_Symbol = True\<rparr>]"

definition sampleTable :: DataViewTable where
  "sampleTable =
     \<lparr>columns = sampleColumns,
      rows = [[Some ''2024-01-01'', Some ''Kickoff'', Some ''Project start'', Some ''A'',
               Some ''x''],
              [Some ''2024-01-11'', Some ''Release'', Some ''Version 1'', Some ''B'',
               Some ''x''],
              [Some ''2024-01-06'', Some ''Review'', Some ''Mid review'', Some ''A'',
               Some ''y''],
              [Some ''2024-01-01'', Some ''BudgetApproval'', Some ''Budget approved'',
               Some ''B'', Some ''y'']]\<rparr>"


definition sampleRecords :: "Data list" where
  "sampleRecords =
     [\<lparr>date = ''2024-01-01'', dateDisplay = ''01/01/2024'', event = ''Kickoff'',
        eventDisplay = ''Kickoff'', description = ''Project start'', colorAttribute = ''A'',
        color = None, symbolAttribute = ''x'', symbol = None\<rparr>,
      \<lparr>date = ''2024-01-11'', dateDisplay = ''11/01/2024'', event = ''Release'',
        eventDisplay = ''Release'', description = ''Version 1'', colorAttribute = ''B'',
        color = None, symbolAttribute = ''x'', symbol = None\<rparr>,
      \<lparr>date = ''2024-01-06'', dateDisplay = ''06/01/2024'', event = ''Review'',
        eventDisplay = ''Review'', description = ''Mid review'', colorAttribute = ''A'',
        color = None, symbolAttribute = ''y'', symbol = None\<rparr>,
      \<lparr>date = ''2024-01-01'', dateDisplay = ''01/01/2024'', event = ''BudgetApproval'',
        eventDisplay = ''BudgetA...'', description = ''Budget approved'',
        colorAttribute = ''B'', color = None, symbolAttribute = ''y'', symbol = None\<rparr>]"

text \<open>
  Three Records, the second with a date that no host parses; and two tables of one row that
  differ in the Color cell only, which is blank in the second.
\<close>

definition unparseableRecords :: "Data list" where
  "unparseableRecords =
     [\<lparr>date = ''2024-01-01'', dateDisplay = ''01/01/2024'', event = ''Kickoff'',
        eventDisplay = ''Kickoff'', description = ''Project start'', colorAttribute = ''A'',
        color = None, symbolAttribute = ''x'', symbol = None\<rparr>,
      \<lparr>date = ''soon'', dateDisplay = ''NaN/NaN/NaN'', event = ''Release'',
        eventDisplay = ''Release'', description = ''Version 1'', colorAttribute = ''B'',
        color = None, symbolAttribute = ''x'', symbol = None\<rparr>,
      \<lparr>date = ''2024-01-11'', dateDisplay = ''11/01/2024'', event = ''Review'',
        eventDisplay = ''Review'', description = ''Final review'', colorAttribute = ''A'',
        color = None, symbolAttribute = ''y'', symbol = None\<rparr>]"



section \<open>Event label truncation\<close>

text \<open>
  C6. An event string of at most 10 characters is displayed unchanged; a longer one is
  displayed as its first 7 characters followed by the 3-character marker \<^verbatim>\<open>...\<close>, and
  that display string has exactly 10 characters.
\<close>

theorem formatStringDisplay_spec:
  "(length input \<le> 10 \<longrightarrow> formatStringDisplay input = input) \<and>
   (\<not> length input \<le> 10 \<longrightarrow>
      formatStringDisplay input = take 7 input @ ''...'' \<and>
      length (take 7 input) = 7 \<and> length ''...'' = 3 \<and>
      length (formatStringDisplay input) = 10)"
  by (simp add: formatStringDisplay_def)

theorem formatStringDisplay_spec_witness:
  "formatStringDisplay ''Short'' = ''Short'' \<and>
   formatStringDisplay ''abcdefghijkl'' = ''abcdefg...'' \<and>
   length (formatStringDisplay ''abcdefghijkl'') = 10"
  using formatStringDisplay_spec [of "''Short''"]
    formatStringDisplay_spec [of "''abcdefghijkl''"]
  by simp

text \<open>
  C7. The 17-character event string \<^verbatim>\<open>HelloWorldExample\<close> is cut after its seventh
  character: it is displayed as \<^verbatim>\<open>HelloWo...\<close>, not as the 11-character
  \<^verbatim>\<open>HelloWor...\<close>. The 5-character string \<^verbatim>\<open>Short\<close> is displayed unchanged.
\<close>

theorem formatStringDisplay_examples:
  "length ''HelloWorldExample'' = 17 \<and>
   formatStringDisplay ''HelloWorldExample'' = ''HelloWo...'' \<and>
   length ''Short'' = 5 \<and>
   formatStringDisplay ''Short'' = ''Short''"
  by (simp add: formatStringDisplay_def)

theorem formatStringDisplay_HelloWor_counterexample:
  "formatStringDisplay ''HelloWorldExample'' \<noteq> ''HelloWor...''"
  by (simp add: formatStringDisplay_def)

section \<open>Date formatting\<close>

lemma natToString_lt10: "n < 10 \<Longrightarrow> natToString n = [digitChar n]"
  by (simp add: natToString.simps)

lemma natToString_lt100: "10 \<le> n \<Longrightarrow> n < 100 \<Longrightarrow> natToString n = twoDigits n"
  by (subst natToString.simps) (simp add: natToString_lt10 twoDigits_def)

lemma natToString_lt1000:
  "100 \<le> n \<Longrightarrow> n < 1000 \<Longrightarrow>
   natToString n = [digitChar (n div 100), digitChar (n div 10 mod 10), digitChar (n mod 10)]"
  by (subst natToString.simps) (simp add: natToString_lt100 twoDigits_def div_mult2_eq[symmetric])

lemma natToString_lt10000: "1000 \<le> n \<Longrightarrow> n < 10000 \<Longrightarrow> natToString n = fourDigits n"
  by (subst natToString.simps) (simp add: natToString_lt1000 fourDigits_def div_mult2_eq[symmetric])

lemma padStart_twoDigits: "n < 100 \<Longrightarrow> padStart 2 CHR ''0'' (natToString n) = twoDigits n"
proof (cases "n < 10")
  case True
  then show ?thesis
    by (simp add: padStart_def natToString_lt10 twoDigits_def digitChar_def)
next
  case False
  assume "n < 100"
  with False show ?thesis
    by (simp add: padStart_def natToString_lt100 twoDigits_def)
qed

lemma formatDate_ValidDate:
  assumes "newDate raw = ValidDate t y m d"
    and "d \<le> 31" and "m \<le> 11" and "1000 \<le> y" and "y \<le> 9999"
  shows "formatDate newDate raw = DDMMYYYY d (m + 1) (nat y)"
  using assms
  by (simp add: formatDate_def numberToString_def padStart_twoDigits natToString_lt10000
      DDMMYYYY_def nat_add_distrib)

lemma formatDate_valid:
  assumes "newDate raw = ValidDate t y m d"
    and "d \<le> 31" and "m \<le> 11" and "1000 \<le> y" and "y \<le> 9999"
  shows "formatDate newDate raw = DDMMYYYY d (m + 1) (nat y) \<and>
         length (formatDate newDate raw) = 10"
  using assms
  by (simp add: formatDate_ValidDate DDMMYYYY_def twoDigits_def fourDigits_def)

lemma formatDate_at_UTC:
  "formatDate (hostDate (\<lambda>t. 0) (\<lambda>s. None)) ''2024-03-05'' = ''05/03/2024''"
  by code_simp

text \<open>
  C5. The formatter reads day, month and year with the local-time getters from a Date
  that the constructor has read as midnight UTC, and pads day and month but not the year.
  On a host five hours west of UTC the raw date \<^verbatim>\<open>2024-03-05\<close> is displayed as
  \<^verbatim>\<open>04/03/2024\<close>, the day before, and not as \<^verbatim>\<open>05/03/2024\<close>; on any host at UTC the
  raw date \<^verbatim>\<open>0999-01-01\<close> is displayed with the three-digit year \<^verbatim>\<open>01/01/999\<close>.
\<close>

theorem formatDate_west_of_UTC:
  "formatDate (hostDate (\<lambda>t. - 18000000) (\<lambda>s. None)) ''2024-03-05'' = ''04/03/2024'' \<and>
   formatDate (hostDate (\<lambda>t. 0) (\<lambda>s. None)) ''0999-01-01'' = ''01/01/999''"
  by code_simp

section \<open>The data mapper on tables with unresolved roles\<close>

lemma scanColumn_fields:
  "idDate (scanColumn ids (i, c)) = (if role_Date c then Some i else idDate ids)"
  "idEvent (scanColumn ids (i, c)) = (if role_Event c then Some i else idEvent ids)"
  "idDescription (scanColumn ids (i, c)) =
     (if role_Description c then Some i else idDescription ids)"
  "idColor (scanColumn ids (i, c)) = (if role_Color c then Some i else idColor ids)"
  "idSymbol (scanColumn ids (i, c)) = (if role_Symbol c then Some i else idSymbol ids)"
  by (simp_all add: scanColumn_def Let_def)

lemma foldl_scanColumn_None:
  "(idDate (foldl scanColumn ids (enumerate n cols)) = None \<longleftrightarrow>
      idDate ids = None \<and> (\<forall>c\<in>set cols. \<not> role_Date c)) \<and>
   (idEvent (foldl scanColumn ids (enumerate n cols)) = None \<longleftrightarrow>
      idEvent ids = None \<and> (\<forall>c\<in>set cols. \<not> role_Event c)) \<and>
   (idDescription (foldl scanColumn ids (enumerate n cols)) = None \<longleftrightarrow>
      idDescription ids = None \<and> (\<forall>c\<in>set cols. \<not> role_Description c)) \<and>
   (idColor (foldl scanColumn ids (enumerate n cols)) = None \<longleftrightarrow>
      idColor ids = None \<and> (\<forall>c\<in>set cols. \<not> role_Color c)) \<and>
   (idSymbol (foldl scanColumn ids (enumerate n cols)) = None \<longleftrightarrow>
      idSymbol ids = None \<and> (\<forall>c\<in>set cols. \<not> role_Symbol c))"
proof (induction cols arbitrary: ids n)
  case Nil
  then show ?case by simp
next
  case (Cons c cols)
  show ?case
    using Cons.IH [of "scanColumn ids (n, c)" "Suc n"]
    by (simp add: scanColumn_fields)
qed

lemma resolveColumns_None:
  "idDate (resolveColumns cols) = None \<longleftrightarrow> (\<forall>c\<in>set cols. \<not> role_Date c)"
  "idEvent (resolveColumns cols) = None \<longleftrightarrow> (\<forall>c\<in>set cols. \<not> role_Event c)"
  "idDescription (resolveColumns cols) = None \<longleftrightarrow> (\<forall>c\<in>set cols. \<not> role_Description c)"
  "idColor (resolveColumns cols) = None \<longleftrightarrow> (\<forall>c\<in>set cols. \<not> role_Color c)"
  "idSymbol (resolveColumns cols) = None \<longleftrightarrow> (\<forall>c\<in>set cols. \<not> role_Symbol c)"
  using foldl_scanColumn_None [of noColumns 0 cols]
  by (simp_all add: resolveColumns_def noColumns_def)

lemma cellToString_None [simp]: "cellToString row None = Inl TypeError"
  by (simp add: cellToString_def)

lemma transformRow_unresolved:
  assumes "idDate ids = None \<or> idEvent ids = None \<or> idDescription ids = None \<or>
           idColor ids = None \<or> idSymbol ids = None"
  shows "transformRow newDate ids cs ss row = (Inl TypeError, cs, ss)"
  using assms
  by (auto simp: transformRow_def cellToString_def Let_def split: sum.splits option.splits)

text \<open>
  When \<^verbatim>\<open>transformData\<close> returns, it returns one Record per row, in row order, each
  made of the cells its row has in the five resolved columns.
\<close>

lemma transformRow_fields:
  assumes "fst (transformRow newDate ids cs ss row) = Inr item"
  shows "\<exists>a b c d e.
     idDate ids = Some a \<and> idEvent ids = Some b \<and> idDescription ids = Some c \<and>
     idColor ids = Some d \<and> idSymbol ids = Some e \<and>
     a < length row \<and> b < length row \<and> c < length row \<and> d < length row \<and> e < length row \<and>
     row ! a = Some (date item) \<and> dateDisplay item = formatDate newDate (date item) \<and>
     row ! b = Some (event item) \<and> eventDisplay item = formatStringDisplay (event item) \<and>
     row ! c = Some (description item) \<and> row ! d = Some (colorAttribute item) \<and>
     row ! e = Some (symbolAttribute item)"
  using assms
  by (auto simp: transformRow_def cellToString_def Let_def
      split: sum.splits option.splits if_splits prod.splits)

lemma transformRows_items:
  "fst (transformRows newDate ids cs ss acc rws) = Inr d \<Longrightarrow>
   \<exists>items. d = acc @ items \<and> length items = length rws \<and>
     (\<forall>i<length rws. \<exists>cs' ss'.
        fst (transformRow newDate ids cs' ss' (rws ! i)) = Inr (items ! i))"
proof (induction rws arbitrary: cs ss acc)
  case Nil
  then show ?case by simp
next
  case (Cons row rws)
  from Cons.prems obtain item cs1 ss1 where
    r: "transformRow newDate ids cs ss row = (Inr item, cs1, ss1)" and
    rest: "fst (transformRows newDate ids cs1 ss1 (acc @ [item]) rws) = Inr d"
    by (auto split: prod.splits sum.splits)
  from Cons.IH [OF rest] obtain items where
    i: "d = (acc @ [item]) @ items" "length items = length rws"
      "\<forall>i<length rws. \<exists>cs' ss'.
         fst (transformRow newDate ids cs' ss' (rws ! i)) = Inr (items ! i)"
    by blast
  have "\<exists>cs' ss'. fst (transformRow newDate ids cs' ss' ((row # rws) ! j)) =
      Inr ((item # items) ! j)" if "j < length (row # rws)" for j
  proof (cases j)
    case 0
    with r show ?thesis by (metis fst_conv nth_Cons_0)
  next
    case (Suc k)
    with that i(3) show ?thesis by simp
  qed
  with i(1,2) have "d = acc @ (item # items) \<and> length (item # items) = length (row # rws) \<and>
     (\<forall>j<length (row # rws). \<exists>cs' ss'.
        fst (transformRow newDate ids cs' ss' ((row # rws) ! j)) = Inr ((item # items) ! j))"
    by simp
  then show ?case by blast
qed

lemma transformData_rows:
  assumes "fst (transformData newDate cs ss t) = Inr d"
  shows "length d = length (rows t) \<and>
     (\<forall>i<length (rows t). \<exists>cs' ss'.
        fst (transformRow newDate (resolveColumns (columns t)) cs' ss' (rows t ! i)) =
          Inr (d ! i))"
  using transformRows_items [of newDate "resolveColumns (columns t)" cs ss "[]" "rows t" d] assms
  by (auto simp: transformData_def)

text \<open>
  C1. A role resolved by no column does not make \<^verbatim>\<open>transformData\<close> fall back to the
  empty string, black and circle: the cell of every role is read and converted before the
  checks against \<^verbatim>\<open>null\<close>, so on a table with at least one row and an unresolved role
  the first row throws a TypeError and no Record is produced. The scales are left as they
  were.
\<close>

theorem transformData_unresolved_throws:
  assumes "rows t \<noteq> []"
      and "(\<forall>c\<in>set (columns t). \<not> role_Date c) \<or>
           (\<forall>c\<in>set (columns t). \<not> role_Event c) \<or>
           (\<forall>c\<in>set (columns t). \<not> role_Description c) \<or>
           (\<forall>c\<in>set (columns t). \<not> role_Color c) \<or>
           (\<forall>c\<in>set (columns t). \<not> role_Symbol c)"
  shows "transformData newDate cs ss t = (Inl TypeError, cs, ss)"
proof -
  from assms(1) obtain row rest where r: "rows t = row # rest"
    by (cases "rows t") auto
  from assms(2) have
    "idDate (resolveColumns (columns t)) = None \<or>
     idEvent (resolveColumns (columns t)) = None \<or>
     idDescription (resolveColumns (columns t)) = None \<or>
     idColor (resolveColumns (columns t)) = None \<or>
     idSymbol (resolveColumns (columns t)) = None"
    by (simp only: resolveColumns_None)
  then show ?thesis
    by (simp add: transformData_def r transformRow_unresolved)
qed

theorem transformData_unresolved_throws_witness:
  "fst (transformData (\<lambda>s. InvalidDate) scaleOrdinal scaleOrdinal
     \<lparr>columns = [\<lparr>role_Date = True, role_Event = False, role_Description = False,
                   role_Color = False, role_Symbol = False\<rparr>,
                 \<lparr>role_Date = False, role_Event = True, role_Description = False,
                   role_Color = False, role_Symbol = False\<rparr>,
                 \<lparr>role_Date = False, role_Event = False, role_Description = True,
                   role_Color = False, role_Symbol = False\<rparr>],
      rows = [[Some ''2024-03-05'', Some ''Launch'', Some ''First release'']]\<rparr>) = Inl TypeError"
  using transformData_unresolved_throws [of
      "\<lparr>columns = [\<lparr>role_Date = True, role_Event = False, role_Description = False,
                     role_Color = False, role_Symbol = False\<rparr>,
                   \<lparr>role_Date = False, role_Event = True, role_Description = False,
                     role_Color = False, role_Symbol = False\<rparr>,
                   \<lparr>role_Date = False, role_Event = False, role_Description = True,
                     role_Color = False, role_Symbol = False\<rparr>],
        rows = [[Some ''2024-03-05'', Some ''Launch'', Some ''First release'']]\<rparr>"
      "\<lambda>s. InvalidDate" scaleOrdinal scaleOrdinal]
  by simp

text \<open>
  C2. On a table of two rows whose columns carry the Date and Event roles only,
  \<^verbatim>\<open>transformData\<close> returns no Records at all: the first row throws.
\<close>

theorem transformData_two_rows_no_records:
  "fst (transformData newDate cs ss
     \<lparr>columns = [\<lparr>role_Date = True, role_Event = False, role_Description = False,
                   role_Color = False, role_Symbol = False\<rparr>,
                 \<lparr>role_Date = False, role_Event = True, role_Description = False,
                   role_Color = False, role_Symbol = False\<rparr>],
      rows = [[Some ''2024-03-05'', Some ''Launch''],
              [Some ''2024-03-06'', Some ''Review'']]\<rparr>) = Inl TypeError"
  by (simp add: transformData_def resolveColumns_def scanColumn_def noColumns_def
      enumerate_eq_zip transformRow_def cellToString_def upt_rec)

section \<open>The empty table\<close>

text \<open>
  C4. On a table with zero rows \<^verbatim>\<open>update\<close> does not throw, whatever the columns and
  the viewport: the scene has the baseline from x = 50 to x = width - 50 at
  y = height / 2 and no marker.
\<close>

theorem update_empty_table:
  "\<exists>scene v'.
     update newDate v \<lparr>table = \<lparr>columns = cols, rows = []\<rparr>, viewport_width = width,
       viewport_height = height\<rparr> = (Inr scene, v') \<and>
     line_x1 (baseline scene) = 50 \<and> line_x2 (baseline scene) = width - 50 \<and>
     line_y1 (baseline scene) = height / 2 \<and> line_y2 (baseline scene) = height / 2 \<and>
     markers scene = []"
  by (simp add: update_def transformData_def drawTimeline_def basicTimeline_def d3_group_def
      Let_def)


section \<open>The encoding scales\<close>

lemma callScale_no_range:
  "scale_range s = [] \<Longrightarrow>
   fst (callScale s d) = None \<and> scale_range (snd (callScale s d)) = []"
  by (simp add: callScale_def rangeAt_def split: option.splits)

lemma callScales_no_range:
  "scale_range s = [] \<Longrightarrow> callScales s ds = (vs, s') \<Longrightarrow>
   vs = replicate (length ds) None \<and> scale_range s' = []"
proof (induction ds arbitrary: s vs s')
  case Nil
  then show ?case by simp
next
  case (Cons d ds)
  obtain v s1 where c: "callScale s d = (v, s1)" by (cases "callScale s d")
  obtain ws s2 where r: "callScales s1 ds = (ws, s2)" by (cases "callScales s1 ds")
  from callScale_no_range [OF Cons.prems(1), of d] c
  have v: "v = None" and s1: "scale_range s1 = []" by simp_all
  from Cons.IH [OF s1 r] Cons.prems(2) c r v show ?case by auto
qed

lemma transformRow_scales:
  assumes "transformRow newDate ids cs ss row = (Inr item, cs', ss')"
  shows "callScale cs (colorAttribute item) = (color item, cs') \<and>
         callScale ss (symbolAttribute item) = (symbol item, ss')"
  using assms
  by (auto simp: transformRow_def cellToString_def Let_def
      split: sum.splits option.splits if_splits prod.splits)

lemma transformRows_scales:
  "transformRows newDate ids cs ss acc rws = (Inr d, cs', ss') \<Longrightarrow>
   \<exists>items. d = acc @ items \<and> length items = length rws \<and>
     callScales cs (map colorAttribute items) = (map color items, cs') \<and>
     callScales ss (map symbolAttribute items) = (map symbol items, ss')"
proof (induction rws arbitrary: cs ss acc)
  case Nil
  then show ?case by simp
next
  case (Cons row rws)
  from Cons.prems obtain item cs1 ss1 where
    r: "transformRow newDate ids cs ss row = (Inr item, cs1, ss1)" and
    rest: "transformRows newDate ids cs1 ss1 (acc @ [item]) rws = (Inr d, cs', ss')"
    by (auto split: prod.splits sum.splits)
  from Cons.IH [OF rest] obtain items where
    i: "d = (acc @ [item]) @ items" "length items = length rws"
      "callScales cs1 (map colorAttribute items) = (map color items, cs')"
      "callScales ss1 (map symbolAttribute items) = (map symbol items, ss')"
    by blast
  from transformRow_scales [OF r] i
  have "d = acc @ (item # items) \<and> length (item # items) = length (row # rws) \<and>
     callScales cs (map colorAttribute (item # items)) = (map color (item # items), cs') \<and>
     callScales ss (map symbolAttribute (item # items)) = (map symbol (item # items), ss')"
    by simp
  then show ?case by blast
qed

lemma transformData_scales:
  assumes "transformData newDate cs ss t = (Inr d, cs', ss')"
  shows "callScales cs (map colorAttribute d) = (map color d, cs') \<and>
         callScales ss (map symbolAttribute d) = (map symbol d, ss')"
  using transformRows_scales [of newDate "resolveColumns (columns t)" cs ss "[]" "rows t" d cs' ss']
    assms
  by (auto simp: transformData_def)

lemma sampleRecords_transformData:
  "transformData sampleDate (colorScale constructor) (symbolScale constructor) sampleTable =
     (Inr sampleRecords,
      \<lparr>scale_domain = [''A'', ''B''], scale_range = []\<rparr>,
      \<lparr>scale_domain = [''x'', ''y''], scale_range = []\<rparr>)"
  by (simp add: transformData_def sampleTable_def sampleColumns_def sampleRecords_def
      resolveColumns_def scanColumn_def noColumns_def enumerate_eq_zip upt_rec
      transformRow_def cellToString_def callScale_def rangeAt_def scaleOrdinal_def
      constructor_def formatStringDisplay_def formatDate_def sampleDate_def
      numberToString_def padStart_def natToString.simps digitChar_def Let_def)

text \<open>
  C8. The scales give no visual value at all. The constructor builds both with
  \<^verbatim>\<open>d3.scaleOrdinal()\<close>, whose range is empty, and nothing sets a range afterwards; so
  as long as the ranges are empty, which they stay, every Record that \<^verbatim>\<open>transformData\<close>
  returns has \<^verbatim>\<open>undefined\<close> for its color and for its symbol, whatever its labels:
  a newly seen label is not given the next unused value of a palette, and different
  labels are not told apart.
\<close>

theorem scales_without_range:
  assumes "scale_range cs = []" and "scale_range ss = []"
      and "transformData newDate cs ss t = (Inr d, cs', ss')"
  shows "(\<forall>r\<in>set d. color r = None \<and> symbol r = None) \<and>
         scale_range cs' = [] \<and> scale_range ss' = []"
proof -
  from transformData_scales [OF assms(3)]
  have c: "callScales cs (map colorAttribute d) = (map color d, cs')"
    and y: "callScales ss (map symbolAttribute d) = (map symbol d, ss')"
    by simp_all
  from callScales_no_range [OF assms(1) c]
  have c': "map color d = replicate (length d) None" "scale_range cs' = []" by simp_all
  from callScales_no_range [OF assms(2) y]
  have y': "map symbol d = replicate (length d) None" "scale_range ss' = []" by simp_all
  have "color r = None \<and> symbol r = None" if "r \<in> set d" for r
  proof -
    from that have "color r \<in> set (map color d)" "symbol r \<in> set (map symbol d)"
      by simp_all
    then show ?thesis
      unfolding c'(1) y'(1) by simp
  qed
  with c'(2) y'(2) show ?thesis by blast
qed

theorem scales_without_range_witness:
  "scale_range (colorScale constructor) = [] \<and> scale_range (symbolScale constructor) = [] \<and>
   fst (transformData sampleDate (colorScale constructor) (symbolScale constructor)
     sampleTable) = Inr sampleRecords \<and>
   map colorAttribute sampleRecords = [''A'', ''B'', ''A'', ''B''] \<and>
   map color sampleRecords = [None, None, None, None] \<and>
   map symbolAttribute sampleRecords = [''x'', ''x'', ''y'', ''y''] \<and>
   map symbol sampleRecords = [None, None, None, None]"
proof -
  have r: "scale_range (colorScale constructor) = []"
    "scale_range (symbolScale constructor) = []"
    by (simp_all add: constructor_def scaleOrdinal_def)
  from scales_without_range [OF r sampleRecords_transformData]
  have "map color sampleRecords = map (\<lambda>r. None) sampleRecords"
    by simp
  moreover have "map colorAttribute sampleRecords = [''A'', ''B'', ''A'', ''B'']"
    "map color sampleRecords = [None, None, None, None]"
    "map symbolAttribute sampleRecords = [''x'', ''x'', ''y'', ''y'']"
    "map symbol sampleRecords = [None, None, None, None]"
    by (simp_all add: sampleRecords_def)
  ultimately show ?thesis
    using r sampleRecords_transformData by simp
qed

section \<open>Grouping by date\<close>

lemma groupInsert_keys:
  "map fst (groupInsert g d) =
     (if date d \<in> set (map fst g) then map fst g else map fst g @ [date d])"
  by (induction g d rule: groupInsert.induct) auto

lemma groupInsert_map_of:
  "map_of (groupInsert g d) k =
     (if k = date d
      then Some (case map_of g k of None \<Rightarrow> [d] | Some vs \<Rightarrow> vs @ [d])
      else map_of g k)"
  by (induction g d rule: groupInsert.induct) auto

lemma groupInsert_keyset: "fst ` set (groupInsert g d) = insert (date d) (fst ` set g)"
  by (induction g d rule: groupInsert.induct) auto

lemma foldl_groupInsert_distinct:
  "distinct (map fst g) \<Longrightarrow> distinct (map fst (foldl groupInsert g ds))"
  by (induction ds arbitrary: g) (simp_all add: groupInsert_keys)

lemma foldl_groupInsert_keys:
  "set (map fst (foldl groupInsert g ds)) = set (map fst g) \<union> date ` set ds"
  by (induction ds arbitrary: g) (simp_all add: groupInsert_keyset)


lemma filter_date_none: "k \<notin> date ` set ds \<Longrightarrow> filter (\<lambda>d. date d = k) ds = []"
  by (induction ds) auto

lemma foldl_groupInsert_map_of:
  "map_of (foldl groupInsert g ds) k =
     (if k \<in> date ` set ds
      then Some ((case map_of g k of None \<Rightarrow> [] | Some vs \<Rightarrow> vs) @ filter (\<lambda>d. date d = k) ds)
      else map_of g k)"
proof (induction ds arbitrary: g)
  case Nil
  then show ?case by simp
next
  case (Cons d ds)
  let ?old = "case map_of g k of None \<Rightarrow> [] | Some vs \<Rightarrow> vs"
  have unfold: "map_of (foldl groupInsert g (d # ds)) k =
      (if k \<in> date ` set ds
       then Some ((case map_of (groupInsert g d) k of None \<Rightarrow> [] | Some vs \<Rightarrow> vs) @
                  filter (\<lambda>d. date d = k) ds)
       else map_of (groupInsert g d) k)"
    using Cons.IH [of "groupInsert g d"] by simp
  show ?case
  proof (cases "k = date d")
    case True
    have step: "map_of (groupInsert g d) k = Some (?old @ [d])"
      using True by (simp add: groupInsert_map_of split: option.splits)
    have mem: "k \<in> date ` set (d # ds)" using True by simp
    have fil: "filter (\<lambda>x. date x = k) (d # ds) = d # filter (\<lambda>x. date x = k) ds"
      using True by simp
    show ?thesis
    proof (cases "k \<in> date ` set ds")
      case True
      with unfold step mem fil show ?thesis by simp
    next
      case False
      with unfold step mem fil filter_date_none [OF False] show ?thesis by simp
    qed
  next
    case False
    have step: "map_of (groupInsert g d) k = map_of g k"
      using False by (simp add: groupInsert_map_of)
    have fil: "filter (\<lambda>x. date x = k) (d # ds) = filter (\<lambda>x. date x = k) ds"
      using False by auto
    have mem: "k \<in> date ` set (d # ds) \<longleftrightarrow> k \<in> date ` set ds"
      using False by auto
    show ?thesis
      unfolding unfold step fil mem ..
  qed
qed

lemma d3_group_distinct: "distinct (map fst (d3_group ds))"
  by (simp add: d3_group_def foldl_groupInsert_distinct)

lemma d3_group_keys: "set (map fst (d3_group ds)) = date ` set ds"
  using foldl_groupInsert_keys [of "[]" ds] by (simp add: d3_group_def)

lemma d3_group_items:
  assumes "(k, vs) \<in> set (d3_group ds)"
  shows "vs = filter (\<lambda>d. date d = k) ds"
proof -
  from assms have "map_of (d3_group ds) k = Some vs"
    by (simp add: d3_group_distinct)
  moreover have "k \<in> set (map fst (d3_group ds))"
    using assms by (simp add: image_iff) (rule bexI [of _ "(k, vs)"], simp_all)
  then have "k \<in> date ` set ds"
    by (simp only: d3_group_keys)
  ultimately show ?thesis
    by (simp add: d3_group_def foldl_groupInsert_map_of)
qed



section \<open>The time scale\<close>

lemma fold_min_Min: "fold min xs (t::int) = Min (insert t (set xs))"
  using Min.set_eq_fold [of t xs] by simp

lemma fold_max_Max: "fold max xs (t::int) = Max (insert t (set xs))"
  using Max.set_eq_fold [of t xs] by simp

lemma interpolateNumber_linear: "interpolateNumber r0 r1 u = r0 + u * (r1 - r0)"
  by (simp add: interpolateNumber_def algebra_simps)

lemma foldl_minStep_Some:
  "getTime v0 = Some t0 \<Longrightarrow>
   \<exists>v. foldl minStep (Some v0) vs = Some v \<and>
       getTime v = Some (fold min (List.map_filter getTime vs) t0)"
proof (induction vs arbitrary: v0 t0)
  case Nil
  then show ?case by simp
next
  case (Cons a vs)
  show ?case
  proof (cases "getTime a")
    case None
    with Cons show ?thesis by (simp add: minStep_def)
  next
    case (Some t)
    show ?thesis
    proof (cases "t0 > t")
      case True
      then have "minStep (Some v0) a = Some a" "min t t0 = t"
        using Some Cons.prems by (simp_all add: minStep_def)
      with Cons.IH [OF Some] Some show ?thesis
        by simp
    next
      case False
      then have "minStep (Some v0) a = Some v0" "min t t0 = t0"
        using Some Cons.prems by (simp_all add: minStep_def)
      with Cons.IH [OF Cons.prems] Some show ?thesis
        by simp
    qed
  qed
qed

lemma foldl_minStep_None:
  "toNumber (foldl minStep None vs) =
     (if List.map_filter getTime vs = [] then None
      else Some (real_of_int (Min (set (List.map_filter getTime vs)))))"
proof (induction vs)
  case Nil
  then show ?case by (simp add: toNumber_def)
next
  case (Cons a vs)
  show ?case
  proof (cases "getTime a")
    case None
    with Cons show ?thesis by (simp add: minStep_def)
  next
    case (Some t)
    then have "minStep None a = Some a" by (simp add: minStep_def)
    with foldl_minStep_Some [OF Some, of vs] Some show ?thesis
      by (auto simp: toNumber_def fold_min_Min)
  qed
qed

lemma foldl_maxStep_Some:
  "getTime v0 = Some t0 \<Longrightarrow>
   \<exists>v. foldl maxStep (Some v0) vs = Some v \<and>
       getTime v = Some (fold max (List.map_filter getTime vs) t0)"
proof (induction vs arbitrary: v0 t0)
  case Nil
  then show ?case by simp
next
  case (Cons a vs)
  show ?case
  proof (cases "getTime a")
    case None
    with Cons show ?thesis by (simp add: maxStep_def)
  next
    case (Some t)
    show ?thesis
    proof (cases "t0 < t")
      case True
      then have "maxStep (Some v0) a = Some a" "max t t0 = t"
        using Some Cons.prems by (simp_all add: maxStep_def)
      with Cons.IH [OF Some] Some show ?thesis
        by simp
    next
      case False
      then have "maxStep (Some v0) a = Some v0" "max t t0 = t0"
        using Some Cons.prems by (simp_all add: maxStep_def)
      with Cons.IH [OF Cons.prems] Some show ?thesis
        by simp
    qed
  qed
qed

lemma foldl_maxStep_None:
  "toNumber (foldl maxStep None vs) =
     (if List.map_filter getTime vs = [] then None
      else Some (real_of_int (Max (set (List.map_filter getTime vs)))))"
proof (induction vs)
  case Nil
  then show ?case by (simp add: toNumber_def)
next
  case (Cons a vs)
  show ?case
  proof (cases "getTime a")
    case None
    with Cons show ?thesis by (simp add: maxStep_def)
  next
    case (Some t)
    then have "maxStep None a = Some a" by (simp add: maxStep_def)
    with foldl_maxStep_Some [OF Some, of vs] Some show ?thesis
      by (auto simp: toNumber_def fold_max_Max)
  qed
qed

lemma map_filter_map: "List.map_filter f (map g xs) = List.map_filter (\<lambda>x. f (g x)) xs"
  by (induction xs) (simp_all split: option.splits)

lemma d3_min_validTimes:
  "toNumber (d3_min (map (\<lambda>d. newDate (date d)) data0)) =
     (if validTimes newDate data0 = [] then None
      else Some (real_of_int (Min (set (validTimes newDate data0)))))"
  by (simp add: d3_min_def foldl_minStep_None validTimes_def map_filter_map)

lemma d3_max_validTimes:
  "toNumber (d3_max (map (\<lambda>d. newDate (date d)) data0)) =
     (if validTimes newDate data0 = [] then None
      else Some (real_of_int (Max (set (validTimes newDate data0)))))"
  by (simp add: d3_max_def foldl_maxStep_None validTimes_def map_filter_map)

lemma validTimes_mem:
  "d \<in> set data0 \<Longrightarrow> getTime (newDate (date d)) = Some t \<Longrightarrow> t \<in> set (validTimes newDate data0)"
  by (induction data0) (auto simp: validTimes_def split: option.splits)

lemma scaleTime_linear:
  assumes "d0 \<le> d1"
  shows "scaleTime (Some d0, Some d1) (r0, r1) x =
     (case getTime x of None \<Rightarrow> None
      | Some t \<Rightarrow> Some (linearScale (d0, d1) (r0, r1) (real_of_int t)))"
proof (cases "getTime x")
  case None
  then show ?thesis by (simp add: scaleTime_def)
next
  case (Some t)
  show ?thesis
  proof (cases "d0 = d1")
    case True
    with Some show ?thesis
      by (simp add: scaleTime_def linearScale_def normalize_def interpolateNumber_def
          field_simps)
  next
    case False
    with assms have "d1 - d0 \<noteq> 0" "\<not> d1 < d0" by simp_all
    with Some False show ?thesis
      by (simp add: scaleTime_def linearScale_def normalize_def interpolateNumber_linear)
  qed
qed

lemma markers_drawTimeline:
  "markers (drawTimeline newDate data0 width height) =
     map (drawMarker newDate
            (scaleTime (toNumber (d3_min (map (\<lambda>d. newDate (date d)) data0)),
                        toNumber (d3_max (map (\<lambda>d. newDate (date d)) data0)))
               (50, width - 50))
            (height / 2))
       (d3_group data0)"
  by (simp add: drawTimeline_def basicTimeline_def Let_def)

lemma marker_date_drawMarker: "map marker_date (map (drawMarker nd ts y) g) = map fst g"
  by (simp add: drawMarker_def)

lemma scaleTime_invalid: "getTime x = None \<Longrightarrow> scaleTime domain0 rng x = None"
  by (simp add: scaleTime_def)

lemma Min_le_Max_list: "xs \<noteq> [] \<Longrightarrow> Min (set xs) \<le> (Max (set xs) :: int)"
  by (simp add: Min_le_iff)

lemma marker_cx:
  assumes k: "k \<in> date ` set data0"
  shows "scaleTime (toNumber (d3_min (map (\<lambda>d. newDate (date d)) data0)),
                    toNumber (d3_max (map (\<lambda>d. newDate (date d)) data0)))
           (50, width - 50) (newDate k) =
         (case getTime (newDate k) of
            None \<Rightarrow> None
          | Some t \<Rightarrow>
              Some (linearScale (real_of_int (Min (set (validTimes newDate data0))),
                                 real_of_int (Max (set (validTimes newDate data0))))
                      (50, width - 50) (real_of_int t)))"
proof (cases "getTime (newDate k)")
  case None
  then show ?thesis by (simp add: scaleTime_invalid)
next
  case (Some t)
  from k obtain d where "d \<in> set data0" "date d = k" by auto
  with Some have "t \<in> set (validTimes newDate data0)"
    by (simp add: validTimes_mem)
  then have ne: "validTimes newDate data0 \<noteq> []" by auto
  from Min_le_Max_list [OF ne]
  have le: "real_of_int (Min (set (validTimes newDate data0)))
      \<le> real_of_int (Max (set (validTimes newDate data0)))"
    by simp
  show ?thesis
    using ne Some scaleTime_linear [OF le, of 50 "width - 50" "newDate k"]
    by (simp add: d3_min_validTimes d3_max_validTimes)
qed


section \<open>The sample inputs\<close>

lemma sampleDate_hostDate:
  "sampleDate ''2024-01-01'' = hostDate (\<lambda>t. 0) (\<lambda>s. None) ''2024-01-01''"
  "sampleDate ''2024-01-06'' = hostDate (\<lambda>t. 0) (\<lambda>s. None) ''2024-01-06''"
  "sampleDate ''2024-01-11'' = hostDate (\<lambda>t. 0) (\<lambda>s. None) ''2024-01-11''"
  "sampleDate ''soon'' = hostDate (\<lambda>t. 0) (\<lambda>s. None) ''soon''"
  by code_simp+

lemma sample_markers:
  "markers (drawTimeline sampleDate sampleRecords 400 100) =
     [\<lparr>circle = \<lparr>circle_cx = Some 50, circle_cy = 50, circle_r = 5, circle_fill = ''#000'',
                   circle_stroke = ''#000'', circle_stroke_width = 2\<rparr>,
        circle_transition = None, marker_date = ''2024-01-01'',
        marker_events = [sampleRecords ! 0, sampleRecords ! 3]\<rparr>,
      \<lparr>circle = \<lparr>circle_cx = Some 350, circle_cy = 50, circle_r = 5, circle_fill = ''#000'',
                   circle_stroke = ''#000'', circle_stroke_width = 2\<rparr>,
        circle_transition = None, marker_date = ''2024-01-11'',
        marker_events = [sampleRecords ! 1]\<rparr>,
      \<lparr>circle = \<lparr>circle_cx = Some 200, circle_cy = 50, circle_r = 5, circle_fill = ''#000'',
                   circle_stroke = ''#000'', circle_stroke_width = 2\<rparr>,
        circle_transition = None, marker_date = ''2024-01-06'',
        marker_events = [sampleRecords ! 2]\<rparr>]"
  by (simp add: markers_drawTimeline sampleRecords_def d3_group_def drawMarker_def
      d3_min_def d3_max_def minStep_def maxStep_def sampleDate_def toNumber_def scaleTime_def
      normalize_def interpolateNumber_def)


lemma unparseable_markers:
  "map (\<lambda>m. (marker_date m, circle_cx (circle m)))
     (markers (drawTimeline sampleDate unparseableRecords 400 100)) =
   [(''2024-01-01'', Some 50), (''soon'', None), (''2024-01-11'', Some 350)]"
  by (simp add: markers_drawTimeline unparseableRecords_def d3_group_def drawMarker_def
      d3_min_def d3_max_def minStep_def maxStep_def sampleDate_def toNumber_def scaleTime_def
      normalize_def interpolateNumber_def)

section \<open>Markers\<close>

text \<open>
  C3. For every Record sequence (the non-empty ones in particular) the renderer draws
  exactly one marker per distinct raw date value: the markers' dates are pairwise distinct,
  they are the dates of the Records, and each marker holds the Records that share its
  date, in order of encounter. The x-position of a marker whose date parses is the value
  at that date of the linear time scale with domain [minimum date, maximum date] over the
  Records whose date parses and range [50, width - 50], the middle of the range when
  these dates are all the same instant. A marker whose date does not parse is drawn with
  no x-position.
\<close>

theorem drawTimeline_markers:
  "(let ms = markers (drawTimeline newDate data0 width height);
        ts = validTimes newDate data0
    in distinct (map marker_date ms) \<and>
       set (map marker_date ms) = date ` set data0 \<and>
       length ms = card (date ` set data0) \<and>
       (\<forall>m\<in>set ms.
          marker_events m = filter (\<lambda>d. date d = marker_date m) data0 \<and>
          circle_cx (circle m) =
            (case getTime (newDate (marker_date m)) of
               None \<Rightarrow> None
             | Some t \<Rightarrow>
                 Some (linearScale (real_of_int (Min (set ts)), real_of_int (Max (set ts)))
                         (50, width - 50) (real_of_int t)))))"
proof -
  let ?ms = "markers (drawTimeline newDate data0 width height)"
  let ?ts = "scaleTime (toNumber (d3_min (map (\<lambda>d. newDate (date d)) data0)),
                        toNumber (d3_max (map (\<lambda>d. newDate (date d)) data0)))
               (50, width - 50)"
  have ms: "?ms = map (drawMarker newDate ?ts (height / 2)) (d3_group data0)"
    by (rule markers_drawTimeline)
  have keys: "map marker_date ?ms = map fst (d3_group data0)"
    unfolding ms by (rule marker_date_drawMarker)
  have a: "distinct (map marker_date ?ms)"
    unfolding keys by (rule d3_group_distinct)
  have b: "set (map marker_date ?ms) = date ` set data0"
    unfolding keys by (rule d3_group_keys)
  have "length ?ms = length (map marker_date ?ms)" by simp
  also have "\<dots> = card (set (map marker_date ?ms))"
    using a by (simp only: distinct_card)
  finally have c: "length ?ms = card (date ` set data0)"
    unfolding b .
  have d: "marker_events m = filter (\<lambda>d. date d = marker_date m) data0 \<and>
      circle_cx (circle m) =
        (case getTime (newDate (marker_date m)) of
           None \<Rightarrow> None
         | Some t \<Rightarrow>
             Some (linearScale (real_of_int (Min (set (validTimes newDate data0))),
                                real_of_int (Max (set (validTimes newDate data0))))
                     (50, width - 50) (real_of_int t)))"
    if "m \<in> set ?ms" for m
  proof -
    from that obtain g where g: "g \<in> set (d3_group data0)"
      and m: "m = drawMarker newDate ?ts (height / 2) g"
      unfolding ms by auto
    obtain k vs where kv: "g = (k, vs)" by (cases g)
    from g kv have items: "vs = filter (\<lambda>d. date d = k) data0"
      by (simp add: d3_group_items)
    from g kv have "k \<in> set (map fst (d3_group data0))" by force
    then have "k \<in> date ` set data0" by (simp only: d3_group_keys)
    from marker_cx [OF this, of newDate width] items show ?thesis
      by (simp add: m kv drawMarker_def)
  qed
  from a b c d show ?thesis by (simp only: Let_def) blast
qed


theorem drawTimeline_markers_witness:
  "map marker_date (markers (drawTimeline sampleDate sampleRecords 400 100)) =
     [''2024-01-01'', ''2024-01-11'', ''2024-01-06''] \<and>
   map (\<lambda>m. circle_cx (circle m)) (markers (drawTimeline sampleDate sampleRecords 400 100)) =
     [Some 50, Some 350, Some 200] \<and>
   card (date ` set sampleRecords) = 3"
  using drawTimeline_markers [of sampleDate sampleRecords 400 100]
  by (simp add: sample_markers Let_def)



theorem drawTimeline_unparseable_counterexample:
  "getTime (sampleDate ''soon'') = None \<and>
   map (\<lambda>m. (marker_date m, circle_cx (circle m)))
     (markers (drawTimeline sampleDate unparseableRecords 400 100)) =
   [(''2024-01-01'', Some 50), (''soon'', None), (''2024-01-11'', Some 350)]"
  by (simp add: unparseable_markers) (simp add: sampleDate_def)

section \<open>Hovering\<close>

lemma join_Cons: "join sep (x # xs) = x @ concat (map (\<lambda>y. sep @ y) xs)"
  by (induction xs arbitrary: x) simp_all

lemma tooltip_text:
  "join ''<br/><br/>'' (map tooltipEntry es) =
     (case es of
        [] \<Rightarrow> []
      | e # es' \<Rightarrow>
          (''<b>Date:</b> '' @ dateDisplay e @ ''<br/><b>Event:</b> '' @ eventDisplay e @
           ''<br/><b>Description:</b> '' @ description e) @
          concat (map (\<lambda>x. ''<br/><br/>'' @ ''<b>Date:</b> '' @ dateDisplay x @
                             ''<br/><b>Event:</b> '' @ eventDisplay x @
                             ''<br/><b>Description:</b> '' @ description x) es'))"
  by (cases es) (simp_all add: join_Cons tooltipEntry_def comp_def)

text \<open>
  C9. Every marker of a drawn timeline rests with radius 5 and a black stroke of width 2,
  the tooltip hidden. Pointer-enter sets, through a transition of 200 ms, its radius to 8
  and its stroke to red with width 3, and shows the tooltip. The tooltip's content is made
  of the Records that share the marker's date, in order of encounter: for each of them
  its display date, its display event and its full description, under the labels Date,
  Event and Description, and two line breaks between one Record and the next.
  Pointer-leave sets radius 5 and the black stroke of width 2 again, through a transition
  of 200 ms, and hides the tooltip.
\<close>

theorem marker_hover:
  assumes "scene = drawTimeline newDate data0 width height"
      and "i < length (markers scene)"
  shows "(let m = markers scene ! i; hovered = mouseover i scene; rested = mouseout i hovered
     in circle_r (circle m) = 5 \<and> circle_stroke (circle m) = ''#000'' \<and>
        circle_stroke_width (circle m) = 2 \<and> visibility (tooltip scene) = ''hidden'' \<and>
        circle_r (circle (markers hovered ! i)) = 8 \<and>
        circle_stroke (circle (markers hovered ! i)) = ''red'' \<and>
        circle_stroke_width (circle (markers hovered ! i)) = 3 \<and>
        circle_transition (markers hovered ! i) = Some 200 \<and>
        visibility (tooltip hovered) = ''visible'' \<and>
        html (tooltip hovered) =
          (let entry = (\<lambda>e. ''<b>Date:</b> '' @ dateDisplay e @ ''<br/><b>Event:</b> '' @
                              eventDisplay e @ ''<br/><b>Description:</b> '' @ description e)
           in case filter (\<lambda>d. date d = marker_date m) data0 of
                [] \<Rightarrow> []
              | e # es \<Rightarrow> entry e @ concat (map (\<lambda>x. ''<br/><br/>'' @ entry x) es)) \<and>
        circle_r (circle (markers rested ! i)) = 5 \<and>
        circle_stroke (circle (markers rested ! i)) = ''#000'' \<and>
        circle_stroke_width (circle (markers rested ! i)) = 2 \<and>
        circle_transition (markers rested ! i) = Some 200 \<and>
        visibility (tooltip rested) = ''hidden'')"
proof -
  let ?ts = "scaleTime (toNumber (d3_min (map (\<lambda>d. newDate (date d)) data0)),
                        toNumber (d3_max (map (\<lambda>d. newDate (date d)) data0)))
               (50, width - 50)"
  have ms: "markers scene = map (drawMarker newDate ?ts (height / 2)) (d3_group data0)"
    unfolding assms(1) by (rule markers_drawTimeline)
  from assms(2) have ig: "i < length (d3_group data0)" by (simp add: ms)
  then have mem: "d3_group data0 ! i \<in> set (d3_group data0)" by simp
  obtain k vs where kv: "d3_group data0 ! i = (k, vs)" by (cases "d3_group data0 ! i")
  from mem kv have items: "vs = filter (\<lambda>d. date d = k) data0"
    by (simp add: d3_group_items)
  have m: "markers scene ! i = drawMarker newDate ?ts (height / 2) (k, vs)"
    using ig kv by (simp add: ms)
  have tt: "visibility (tooltip scene) = ''hidden''"
    by (simp add: assms(1) drawTimeline_def basicTimeline_def Let_def)
  have len: "i < length (markers (mouseover i scene))"
    using assms(2) by (simp add: mouseover_def Let_def)
  show ?thesis
    using assms(2) len m tt items
    by (simp add: Let_def mouseover_def mouseout_def drawMarker_def tooltip_text
        split: list.splits)
qed

theorem marker_hover_witness:
  "0 < length (markers (drawTimeline sampleDate sampleRecords 400 100)) \<and>
   event (sampleRecords ! 3) = ''BudgetApproval'' \<and>
   circle_r (circle (markers
     (mouseover 0 (drawTimeline sampleDate sampleRecords 400 100)) ! 0)) = 8 \<and>
   html (tooltip (mouseover 0 (drawTimeline sampleDate sampleRecords 400 100))) =
     ''<b>Date:</b> 01/01/2024<br/><b>Event:</b> Kickoff<br/><b>Description:</b> Project start'' @
     ''<br/><br/>'' @
     ''<b>Date:</b> 01/01/2024<br/><b>Event:</b> BudgetA...<br/><b>Description:</b> Budget approved'' \<and>
   circle_r (circle (markers
     (mouseout 0 (mouseover 0 (drawTimeline sampleDate sampleRecords 400 100))) ! 0)) = 5 \<and>
   visibility (tooltip
     (mouseout 0 (mouseover 0 (drawTimeline sampleDate sampleRecords 400 100)))) = ''hidden''"
proof -
  have len: "0 < length (markers (drawTimeline sampleDate sampleRecords 400 100))"
    by (simp add: sample_markers)
  have recs: "filter (\<lambda>d. date d = ''2024-01-01'') sampleRecords =
      [sampleRecords ! 0, sampleRecords ! 3]"
    by (simp add: sampleRecords_def)
  have fields:
    "dateDisplay (sampleRecords ! 0) = ''01/01/2024''"
    "eventDisplay (sampleRecords ! 0) = ''Kickoff''"
    "description (sampleRecords ! 0) = ''Project start''"
    "dateDisplay (sampleRecords ! 3) = ''01/01/2024''"
    "event (sampleRecords ! 3) = ''BudgetApproval''"
    "eventDisplay (sampleRecords ! 3) = ''BudgetA...''"
    "description (sampleRecords ! 3) = ''Budget approved''"
    by (simp_all add: sampleRecords_def)
  have key: "marker_date (markers (drawTimeline sampleDate sampleRecords 400 100) ! 0) =
      ''2024-01-01''"
    by (simp add: sample_markers)
  from marker_hover [OF refl len]
  show ?thesis
    using len by (simp add: Let_def key recs fields)
qed

section \<open>Independence of the Color and Symbol columns\<close>


















end
